theory Spec2Isabelle
  imports Main
begin

section \<open>Python values that cross the REDCap API\<close>

text \<open>
  The two Flask handlers of \<^verbatim>\<open>final_trace_ai_redcap_api_script.py\<close> only handle values
  that \<^verbatim>\<open>response.json()\<close> produces or that \<^verbatim>\<open>json.dumps\<close> consumes. A Python
  \<^verbatim>\<open>dict\<close> is its list of items in insertion order (keys distinct, as the JSON
  decoder builds it); a \<^verbatim>\<open>float\<close> is carried as the text \<^verbatim>\<open>repr\<close> prints for it,
  since floating point itself is not modelled; a string is a list of characters below
  code point 256.
\<close>

datatype json =
    JNull
  | JBool bool
  | JInt int
  | JFloat string
  | JStr string
  | JArr "json list"
  | JObj "(string \<times> json) list"

type_synonym pydict = "(string \<times> json) list"

text \<open>The subclasses of \<^verbatim>\<open>Exception\<close> that the handlers can meet.\<close>

datatype py_exception =
    RequestException
  | JSONDecodeError
  | TypeError
  | KeyError
  | IndexError
  | AttributeError

subsection \<open>Truth value, \<^verbatim>\<open>len\<close>, subscript and \<^verbatim>\<open>dict.get\<close>\<close>

fun truthy :: "json \<Rightarrow> bool" where
  "truthy JNull = False"
| "truthy (JBool b) = b"
| "truthy (JInt n) = (n \<noteq> 0)"
| "truthy (JFloat t) = (t \<noteq> ''0.0'' \<and> t \<noteq> ''-0.0'')"
| "truthy (JStr s) = (s \<noteq> [])"
| "truthy (JArr xs) = (xs \<noteq> [])"
| "truthy (JObj d) = (d \<noteq> [])"

fun py_len :: "json \<Rightarrow> py_exception + nat" where
  "py_len (JStr s) = Inr (length s)"
| "py_len (JArr xs) = Inr (length xs)"
| "py_len (JObj d) = Inr (length d)"
| "py_len _ = Inl TypeError"

text \<open>
  \<^verbatim>\<open>v[0]\<close>: the first element of a list, the first character of a string, and on a
  dict a lookup of the key \<^verbatim>\<open>0\<close>, which a decoded JSON object (string keys only)
  never has.
\<close>

fun subscript0 :: "json \<Rightarrow> py_exception + json" where
  "subscript0 (JArr []) = Inl IndexError"
| "subscript0 (JArr (x # xs)) = Inr x"
| "subscript0 (JStr []) = Inl IndexError"
| "subscript0 (JStr (c # cs)) = Inr (JStr [c])"
| "subscript0 (JObj d) = Inl KeyError"
| "subscript0 _ = Inl TypeError"

definition dict_get :: "pydict \<Rightarrow> string \<Rightarrow> json \<Rightarrow> json" where
  "dict_get d k dflt = (case map_of d k of None \<Rightarrow> dflt | Some v \<Rightarrow> v)"

text \<open>\<^verbatim>\<open>v.get(k, dflt)\<close>: only a dict has the method.\<close>

fun py_get :: "json \<Rightarrow> string \<Rightarrow> json \<Rightarrow> py_exception + json" where
  "py_get (JObj d) k dflt = Inr (dict_get d k dflt)"
| "py_get _ k dflt = Inl AttributeError"

subsection \<open>\<^verbatim>\<open>str\<close> and \<^verbatim>\<open>repr\<close>\<close>

fun dec_nat :: "nat \<Rightarrow> string" where
  "dec_nat n =
     (if n < 10 then [''0123456789'' ! n]
      else dec_nat (n div 10) @ [''0123456789'' ! (n mod 10)])"

definition dec_int :: "int \<Rightarrow> string" where
  "dec_int i = (if i < 0 then CHR ''-'' # dec_nat (nat (- i)) else dec_nat (nat i))"

definition hex2 :: "nat \<Rightarrow> string" where
  "hex2 n = [''0123456789abcdef'' ! (n div 16), ''0123456789abcdef'' ! (n mod 16)]"

definition py_isprintable :: "char \<Rightarrow> bool" where
  "py_isprintable c =
     (let n = (of_char c :: nat)
      in (32 \<le> n \<and> n < 127) \<or> (161 \<le> n \<and> n \<noteq> 173))"

text \<open>One character of \<^verbatim>\<open>repr\<close> of a string delimited by the quote \<open>q\<close>.\<close>

definition repr_char :: "char \<Rightarrow> char \<Rightarrow> string" where
  "repr_char q c =
     (if c = q \<or> c = CHR 0x5C then [CHR 0x5C, c]
      else if c = CHR 0x09 then [CHR 0x5C, CHR ''t'']
      else if c = CHR 0x0A then [CHR 0x5C, CHR ''n'']
      else if c = CHR 0x0D then [CHR 0x5C, CHR ''r'']
      else if py_isprintable c then [c]
      else [CHR 0x5C, CHR ''x''] @ hex2 (of_char c))"

definition repr_str :: "string \<Rightarrow> string" where
  "repr_str s =
     (let q = (if CHR 0x27 \<in> set s \<and> CHR 0x22 \<notin> set s then CHR 0x22 else CHR 0x27)
      in q # concat (map (repr_char q) s) @ [q])"

fun join :: "string \<Rightarrow> string list \<Rightarrow> string" where
  "join sep [] = []"
| "join sep [x] = x"
| "join sep (x # y # ys) = x @ sep @ join sep (y # ys)"

fun py_repr :: "json \<Rightarrow> string" where
  "py_repr JNull = ''None''"
| "py_repr (JBool b) = (if b then ''True'' else ''False'')"
| "py_repr (JInt n) = dec_int n"
| "py_repr (JFloat t) = t"
| "py_repr (JStr s) = repr_str s"
| "py_repr (JArr xs) = ''['' @ join '', '' (map py_repr xs) @ '']''"
| "py_repr (JObj d) =
     ''{'' @ join '', '' (map (\<lambda>kv. repr_str (fst kv) @ '': '' @ py_repr (snd kv)) d) @ ''}''"

text \<open>\<^verbatim>\<open>str(v)\<close>: a string is returned as it is, anything else is printed.\<close>

definition py_str :: "json \<Rightarrow> string" where
  "py_str v = (case v of JStr s \<Rightarrow> s | _ \<Rightarrow> py_repr v)"

section \<open>The REDCap endpoint and the process state\<close>

text \<open>
  The value under a key of the \<^verbatim>\<open>data=\<close> dict handed to \<^verbatim>\<open>requests.post\<close>:
  \<^verbatim>\<open>None\<close>, a string, or the text that \<^verbatim>\<open>json.dumps\<close> produces for a value
  (kept as the value it encodes).
\<close>

datatype form_value = PyNone | PyStr string | JsonDumps json

record request =
  post_url :: "string option"
  post_data :: "(string \<times> form_value) list"

record http_reply =
  status_code :: int
  body_text :: string
  json_body :: "json option"

text \<open>\<^verbatim>\<open>response.json()\<close> raises when the body is not JSON.\<close>

definition response_json :: "http_reply \<Rightarrow> py_exception + json" where
  "response_json r = (case json_body r of None \<Rightarrow> Inl JSONDecodeError | Some v \<Rightarrow> Inr v)"

text \<open>
  The remote endpoint is a parameter: from a request and its own state \<open>'w\<close> it either
  raises (transport failure) or answers, and moves to a new state.
\<close>

type_synonym 'w remote = "request \<Rightarrow> 'w \<Rightarrow> (py_exception + http_reply) \<times> 'w"

text \<open>The lines the handlers print, one constructor per \<^verbatim>\<open>print\<close> statement.\<close>

datatype log_line =
    SyncEvent string int
  | NoConsentAlert "string option" string
  | RedcapError "string option" string
  | UpdateSuccess "string option" string
  | EmailAlertTriggered "string option" string int string

record 'w io =
  world :: 'w
  calls :: "request list"
  printed :: "log_line list"

definition requests_post :: "'w remote \<Rightarrow> request \<Rightarrow> 'w io \<Rightarrow> (py_exception + http_reply) \<times> 'w io" where
  "requests_post net rq s =
     (case net rq (world s) of
        (r, w') \<Rightarrow> (r, s\<lparr>world := w', calls := calls s @ [rq]\<rparr>))"

text \<open>The three values read from the environment at start-up; \<^verbatim>\<open>os.getenv\<close> may give \<^verbatim>\<open>None\<close>.\<close>

record config =
  API_TOKEN_A :: "string option"
  API_TOKEN_B :: "string option"
  REDCAP_API_URL :: "string option"

text \<open>\<^verbatim>\<open>requests.post(REDCAP_API_URL, data=payload)\<close> sends this request.\<close>

abbreviation post_request :: "config \<Rightarrow> (string \<times> form_value) list \<Rightarrow> request" where
  "post_request cfg payload \<equiv> \<lparr>post_url = REDCAP_API_URL cfg, post_data = payload\<rparr>"

definition print :: "log_line \<Rightarrow> 'w io \<Rightarrow> 'w io" where
  "print l s = s\<lparr>printed := printed s @ [l]\<rparr>"

definition form_str :: "string option \<Rightarrow> form_value" where
  "form_str x = (case x of None \<Rightarrow> PyNone | Some s \<Rightarrow> PyStr s)"

definition json_str :: "string option \<Rightarrow> json" where
  "json_str x = (case x of None \<Rightarrow> JNull | Some s \<Rightarrow> JStr s)"

section \<open>What a handler returns\<close>

text \<open>
  The bodies are kept as the source distinguishes them, not as HTML text. The template of
  \<^verbatim>\<open>/transfer\<close> shows the record and one of three blocks chosen by
  \<^verbatim>\<open>{% if choice == '1' %} ... {% elif choice == '2' %} ... {% else %}\<close>.
\<close>

datatype consent_block =
    SendMyQuestionnaire string
  | PrepareInPersonConsent string
  | NoPreferenceWarning string

datatype body =
    NoRecordIdProvided
  | RecordNotFound string
  | SystemErrorDuringTransfer py_exception
  | EligibilityFormSubmitted string consent_block
  | CouldNotRetrieveRecord
  | NoAlertNeeded
  | ActionComplete

type_synonym response = "body \<times> nat"

definition render_template_string :: "string \<Rightarrow> string \<Rightarrow> body" where
  "render_template_string rec choice =
     EligibilityFormSubmitted rec
       (if choice = ''1'' then SendMyQuestionnaire rec
        else if choice = ''2'' then PrepareInPersonConsent rec
        else NoPreferenceWarning choice)"

section \<open>\<^verbatim>\<open>transfer_data\<close>\<close>

definition export_payload :: "config \<Rightarrow> string \<Rightarrow> (string \<times> form_value) list" where
  "export_payload cfg record_id =
     [(''token'', form_str (API_TOKEN_A cfg)),
      (''content'', PyStr ''record''),
      (''format'', PyStr ''json''),
      (''type'', PyStr ''flat''),
      (''records[0]'', PyStr record_id),
      (''exportSurveyFields'', PyStr ''true'')]"

definition clean_data_for_b :: "string \<Rightarrow> string \<Rightarrow> json \<Rightarrow> py_exception + pydict" where
  "clean_data_for_b record_id consent_choice data_from_a =
     (case py_get data_from_a ''pt_email'' JNull of Inl e \<Rightarrow> Inl e | Inr pt_email \<Rightarrow>
     (case py_get data_from_a ''pt_phone'' JNull of Inl e \<Rightarrow> Inl e | Inr pt_phone \<Rightarrow>
     (case py_get data_from_a ''res_email'' JNull of Inl e \<Rightarrow> Inl e | Inr res_email \<Rightarrow>
     (case py_get data_from_a ''elig_date'' JNull of Inl e \<Rightarrow> Inl e | Inr elig_date \<Rightarrow>
        Inr [(''record_id'', JStr record_id),
             (''pt_email'', pt_email),
             (''pt_phone'', pt_phone),
             (''res_email'', res_email),
             (''elig_date'', elig_date),
             (''interested_consent'', JStr consent_choice),
             (''trace_ai_eligibility_screening_draft_complete'', JStr ''2''),
             (''record_set_up_complete'', JStr ''2'')]))))"

definition import_payload :: "config \<Rightarrow> pydict \<Rightarrow> (string \<times> form_value) list" where
  "import_payload cfg clean =
     [(''token'', form_str (API_TOKEN_B cfg)),
      (''content'', PyStr ''record''),
      (''format'', PyStr ''json''),
      (''type'', PyStr ''flat''),
      (''overwriteBehavior'', PyStr ''normal''),
      (''data'', JsonDumps (JArr [JObj clean]))]"

text \<open>
  The projection of steps 1 and 2 on the decoded export: the 404 return (\<open>Inr None\<close>),
  an exception, or the consent choice with the record for Project B.
\<close>

definition project_records :: "string \<Rightarrow> json \<Rightarrow> py_exception + (string \<times> pydict) option" where
  "project_records record_id records =
     (if \<not> truthy records then Inr None
      else
        (case py_len records of Inl e \<Rightarrow> Inl e | Inr n \<Rightarrow>
           if n = 0 then Inr None
           else
             (case subscript0 records of Inl e \<Rightarrow> Inl e | Inr data_from_a \<Rightarrow>
             (case py_get data_from_a ''interested_consent'' (JStr []) of Inl e \<Rightarrow> Inl e | Inr c \<Rightarrow>
             (case clean_data_for_b record_id (py_str c) data_from_a of Inl e \<Rightarrow> Inl e
              | Inr clean \<Rightarrow> Inr (Some (py_str c, clean)))))))"

text \<open>
  The body of the \<^verbatim>\<open>try\<close>: an exception (\<open>Inl\<close>), the early 404 return
  (\<open>Inr (Inl _)\<close>) or falling through with \<^verbatim>\<open>consent_choice\<close>.
\<close>

definition transfer_try ::
  "config \<Rightarrow> 'w remote \<Rightarrow> string \<Rightarrow> 'w io \<Rightarrow> (py_exception + (response + string)) \<times> 'w io" where
  "transfer_try cfg net record_id s =
     (case requests_post net (post_request cfg (export_payload cfg record_id)) s of
        (Inl e, s1) \<Rightarrow> (Inl e, s1)
      | (Inr response_a, s1) \<Rightarrow>
          (case response_json response_a of
             Inl e \<Rightarrow> (Inl e, s1)
           | Inr records \<Rightarrow>
               (case project_records record_id records of
                  Inl e \<Rightarrow> (Inl e, s1)
                | Inr None \<Rightarrow> (Inr (Inl (RecordNotFound record_id, 404)), s1)
                | Inr (Some (consent_choice, clean)) \<Rightarrow>
                    (case requests_post net
                            (post_request cfg (import_payload cfg clean)) s1 of
                       (Inl e, s2) \<Rightarrow> (Inl e, s2)
                     | (Inr response_b, s2) \<Rightarrow>
                         (Inr (Inr consent_choice),
                          print (SyncEvent record_id (status_code response_b)) s2)))))"

text \<open>
  The handler: \<open>record_id\<close> is \<^verbatim>\<open>request.args.get('record')\<close>. \<open>Inl\<close> would be an
  exception leaving the handler; \<^verbatim>\<open>except Exception\<close> turns every one into a 500.
\<close>

definition transfer_data ::
  "config \<Rightarrow> 'w remote \<Rightarrow> string option \<Rightarrow> 'w io \<Rightarrow> (py_exception + response) \<times> 'w io" where
  "transfer_data cfg net record_id s =
     (case record_id of
        None \<Rightarrow> (Inr (NoRecordIdProvided, 400), s)
      | Some rid \<Rightarrow>
          if rid = [] then (Inr (NoRecordIdProvided, 400), s)
          else
            (case transfer_try cfg net rid s of
               (Inl e, s') \<Rightarrow> (Inr (SystemErrorDuringTransfer e, 500), s')
             | (Inr (Inl early), s') \<Rightarrow> (Inr early, s')
             | (Inr (Inr consent_choice), s') \<Rightarrow>
                 (Inr (render_template_string rid consent_choice, 200), s')))"

section \<open>\<^verbatim>\<open>trigger_email\<close>\<close>

definition fetch_payload :: "config \<Rightarrow> string option \<Rightarrow> (string \<times> form_value) list" where
  "fetch_payload cfg record_id =
     [(''token'', form_str (API_TOKEN_B cfg)),
      (''content'', PyStr ''record''),
      (''format'', PyStr ''json''),
      (''records[0]'', form_str record_id)]"

text \<open>The body of the \<^verbatim>\<open>try\<close> of \<^verbatim>\<open>trigger_email\<close>.\<close>

definition read_choice :: "http_reply \<Rightarrow> py_exception + string" where
  "read_choice res =
     (case response_json res of Inl e \<Rightarrow> Inl e | Inr js \<Rightarrow>
     (case subscript0 js of Inl e \<Rightarrow> Inl e | Inr data \<Rightarrow>
     (case py_get data ''interested_consent'' (JStr []) of Inl e \<Rightarrow> Inl e
      | Inr c \<Rightarrow> Inr (py_str c))))"

text \<open>The \<^verbatim>\<open>if/elif/else\<close> on the choice; \<open>None\<close> is the \<^verbatim>\<open>else\<close> branch.\<close>

definition trigger_payload :: "string option \<Rightarrow> string \<Rightarrow> pydict option" where
  "trigger_payload record_id choice =
     (if choice = ''1'' then
        Some [(''record_id'', json_str record_id), (''trigger_email'', JStr ''1'')]
      else if choice = ''2'' then
        Some [(''record_id'', json_str record_id), (''cons_in_person_email'', JStr ''1'')]
      else None)"

definition update_payload :: "config \<Rightarrow> pydict \<Rightarrow> (string \<times> form_value) list" where
  "update_payload cfg p =
     [(''token'', form_str (API_TOKEN_B cfg)),
      (''content'', PyStr ''record''),
      (''format'', PyStr ''json''),
      (''type'', PyStr ''flat''),
      (''data'', JsonDumps (JArr [JObj p]))]"

text \<open>
  The handler: \<open>record_id\<close> is \<^verbatim>\<open>request.form.get('rec_id')\<close>. Both calls of
  \<^verbatim>\<open>requests.post\<close> stand outside any \<^verbatim>\<open>try\<close>, and the one \<^verbatim>\<open>try\<close> catches
  \<^verbatim>\<open>IndexError\<close> and \<^verbatim>\<open>KeyError\<close> only: \<open>Inl e\<close> is the exception \<open>e\<close> leaving the
  handler.
\<close>

definition trigger_email ::
  "config \<Rightarrow> 'w remote \<Rightarrow> string option \<Rightarrow> 'w io \<Rightarrow> (py_exception + response) \<times> 'w io" where
  "trigger_email cfg net record_id s =
     (case requests_post net (post_request cfg (fetch_payload cfg record_id)) s of
        (Inl e, s1) \<Rightarrow> (Inl e, s1)
      | (Inr res, s1) \<Rightarrow>
          (case read_choice res of
             Inl e \<Rightarrow>
               if e = IndexError \<or> e = KeyError then (Inr (CouldNotRetrieveRecord, 500), s1)
               else (Inl e, s1)
           | Inr choice \<Rightarrow>
               (case trigger_payload record_id choice of
                  None \<Rightarrow> (Inr (NoAlertNeeded, 200), print (NoConsentAlert record_id choice) s1)
                | Some p \<Rightarrow>
                    (case requests_post net
                            (post_request cfg (update_payload cfg p)) s1 of
                       (Inl e, s2) \<Rightarrow> (Inl e, s2)
                     | (Inr response, s2) \<Rightarrow>
                         (Inr (ActionComplete, 200),
                          print (EmailAlertTriggered record_id (body_text response)
                                   (status_code response) choice)
                            (print (if status_code response \<noteq> 200
                                    then RedcapError record_id (body_text response)
                                    else UpdateSuccess record_id choice) s2))))))"

text \<open>A request imports records when it carries a \<^verbatim>\<open>data\<close> item; the others export.\<close>

definition is_import :: "request \<Rightarrow> bool" where
  "is_import rq = (map_of (post_data rq) ''data'' \<noteq> None)"

section \<open>A scripted endpoint for concrete runs\<close>

text \<open>The state is the queue of answers still to give; an empty queue refuses the connection.\<close>

definition scripted :: "(py_exception + http_reply) list remote" where
  "scripted rq w = (case w of [] \<Rightarrow> (Inl RequestException, []) | r # rs \<Rightarrow> (r, rs))"

definition start :: "'w \<Rightarrow> 'w io" where
  "start w = \<lparr>world = w, calls = [], printed = []\<rparr>"

definition demo_config :: config where
  "demo_config = \<lparr>API_TOKEN_A = Some ''AAAA'', API_TOKEN_B = Some ''BBBB'',
                   REDCAP_API_URL = Some ''https://redcap.example/api/''\<rparr>"

definition reply_json :: "int \<Rightarrow> json \<Rightarrow> py_exception + http_reply" where
  "reply_json st v = Inr \<lparr>status_code = st, body_text = [], json_body = Some v\<rparr>"

definition reply_text :: "int \<Rightarrow> string \<Rightarrow> py_exception + http_reply" where
  "reply_text st t = Inr \<lparr>status_code = st, body_text = t, json_body = None\<rparr>"

text \<open>
  A record of Project A whose consent field is present and \<^verbatim>\<open>null\<close>.
\<close>

definition null_consent_record :: pydict where
  "null_consent_record =
     [(''record_id'', JStr ''42''), (''pt_email'', JStr ''pat@example.org''),
      (''interested_consent'', JNull)]"

section \<open>Facts shared by the proofs\<close>

lemma requests_post_answer:
  "net rq (world s) = (r, w') \<Longrightarrow>
   requests_post net rq s = (r, s\<lparr>world := w', calls := calls s @ [rq]\<rparr>)"
  by (simp add: requests_post_def)

lemma read_choice_record:
  "json_body res = Some (JArr (JObj d # rest)) \<Longrightarrow>
   read_choice res = Inr (py_str (dict_get d ''interested_consent'' (JStr [])))"
  by (simp add: read_choice_def response_json_def)

lemma export_is_not_import: "\<not> is_import (post_request cfg (export_payload cfg rid))"
  by (simp add: is_import_def export_payload_def)

lemma fetch_is_not_import: "\<not> is_import (post_request cfg (fetch_payload cfg rid))"
  by (simp add: is_import_def fetch_payload_def)

lemma trigger_payload_cases:
  "choice = ''1'' \<or> choice = ''2'' \<Longrightarrow>
   trigger_payload record_id choice =
     Some [(''record_id'', json_str record_id),
           (if choice = ''1'' then ''trigger_email'' else ''cons_in_person_email'', JStr ''1'')]"
  by (auto simp: trigger_payload_def)

lemma calls_trigger_email_write:
  assumes "net (post_request cfg (fetch_payload cfg record_id)) (world s) = (Inr res, w1)"
    and "read_choice res = Inr choice"
    and "trigger_payload record_id choice = Some p"
  shows "calls (snd (trigger_email cfg net record_id s)) =
           calls s @ [post_request cfg (fetch_payload cfg record_id),
                      post_request cfg (update_payload cfg p)]"
proof (cases "net (post_request cfg (update_payload cfg p)) w1")
  case (Pair r2 w2)
  then show ?thesis
    using assms
    by (cases r2) (simp_all add: trigger_email_def requests_post_def print_def)
qed

lemma clean_data_for_b_record:
  "clean_data_for_b rid c (JObj d) =
     Inr [(''record_id'', JStr rid),
          (''pt_email'', dict_get d ''pt_email'' JNull),
          (''pt_phone'', dict_get d ''pt_phone'' JNull),
          (''res_email'', dict_get d ''res_email'' JNull),
          (''elig_date'', dict_get d ''elig_date'' JNull),
          (''interested_consent'', JStr c),
          (''trace_ai_eligibility_screening_draft_complete'', JStr ''2''),
          (''record_set_up_complete'', JStr ''2'')]"
  by (simp add: clean_data_for_b_def)

lemma project_records_record:
  "clean_data_for_b rid (py_str (dict_get d ''interested_consent'' (JStr []))) (JObj d) = Inr clean \<Longrightarrow>
   project_records rid (JArr (JObj d # rest)) =
     Inr (Some (py_str (dict_get d ''interested_consent'' (JStr [])), clean))"
  by (simp add: project_records_def)

lemma import_is_import: "is_import (post_request cfg (import_payload cfg clean))"
  by (simp add: is_import_def import_payload_def)

lemma calls_transfer_data_write:
  assumes "rid \<noteq> []"
    and "net (post_request cfg (export_payload cfg rid)) (world s) = (Inr response_a, w1)"
    and "json_body response_a = Some records"
    and "project_records rid records = Inr (Some (c, clean))"
  shows "calls (snd (transfer_data cfg net (Some rid) s)) =
           calls s @ [post_request cfg (export_payload cfg rid),
                      post_request cfg (import_payload cfg clean)]"
proof (cases "net (post_request cfg (import_payload cfg clean)) w1")
  case (Pair r2 w2)
  then show ?thesis
    using assms
    by (cases r2)
      (simp_all add: transfer_data_def transfer_try_def requests_post_def response_json_def print_def)
qed

lemma py_str_null_consent:
  "map_of d ''interested_consent'' = Some JNull \<Longrightarrow>
   py_str (dict_get d ''interested_consent'' (JStr [])) = ''None''"
  by (simp add: dict_get_def py_str_def)

lemma transfer_data_rejects_missing_id:
  "transfer_data cfg net None s = (Inr (NoRecordIdProvided, 400), s)"
  "transfer_data cfg net (Some []) s = (Inr (NoRecordIdProvided, 400), s)"
  by (simp_all add: transfer_data_def)

lemma trigger_email_no_records:
  assumes "net (post_request cfg (fetch_payload cfg record_id)) (world s) = (Inr res, w1)"
    and "json_body res = Some (JArr [])"
  shows "trigger_email cfg net record_id s =
           (Inr (CouldNotRetrieveRecord, 500),
            s\<lparr>world := w1, calls := calls s @ [post_request cfg (fetch_payload cfg record_id)]\<rparr>)"
  using assms
  by (simp add: trigger_email_def requests_post_def read_choice_def response_json_def)

section \<open>The claims\<close>

text \<open>
  C1. When the record that \<^verbatim>\<open>trigger_email\<close> reads back from Project B has the consent
  choice \<^verbatim>\<open>"1"\<close> or \<^verbatim>\<open>"2"\<close>, the handler posts one update after the read; the record
  in it has the keys \<^verbatim>\<open>record_id\<close> and exactly one of \<^verbatim>\<open>trigger_email\<close> and
  \<^verbatim>\<open>cons_in_person_email\<close>, set to \<^verbatim>\<open>"1"\<close>; the other trigger field is absent from the
  payload, so nothing is written to it. This holds whatever the endpoint answers to the
  update.
\<close>

theorem dispatch_sets_one_trigger:
  assumes "net (post_request cfg (fetch_payload cfg record_id)) (world s) = (Inr res, w1)"
    and "json_body res = Some (JArr (JObj d # rest))"
    and "choice = py_str (dict_get d ''interested_consent'' (JStr []))"
    and "choice = ''1'' \<or> choice = ''2''"
  shows "\<exists>p. calls (snd (trigger_email cfg net record_id s)) =
               calls s @ [post_request cfg (fetch_payload cfg record_id),
                          post_request cfg (update_payload cfg p)]
             \<and> map_of (update_payload cfg p) ''data'' = Some (JsonDumps (JArr [JObj p]))
             \<and> map fst p =
                 [''record_id'', if choice = ''1'' then ''trigger_email'' else ''cons_in_person_email'']
             \<and> map_of p ''trigger_email'' = (if choice = ''1'' then Some (JStr ''1'') else None)
             \<and> map_of p ''cons_in_person_email'' = (if choice = ''2'' then Some (JStr ''1'') else None)"
proof -
  let ?p = "[(''record_id'', json_str record_id),
             (if choice = ''1'' then ''trigger_email'' else ''cons_in_person_email'', JStr ''1'')]"
  have rc: "read_choice res = Inr choice"
    using assms(2,3) by (simp add: read_choice_record)
  have tp: "trigger_payload record_id choice = Some ?p"
    using assms(4) by (rule trigger_payload_cases)
  have a1: "calls (snd (trigger_email cfg net record_id s)) =
          calls s @ [post_request cfg (fetch_payload cfg record_id),
                     post_request cfg (update_payload cfg ?p)]"
    using assms(1) rc tp by (rule calls_trigger_email_write)
  have a2: "map_of (update_payload cfg ?p) ''data'' = Some (JsonDumps (JArr [JObj ?p]))"
    by (simp add: update_payload_def)
  have a3: "map fst ?p =
      [''record_id'', if choice = ''1'' then ''trigger_email'' else ''cons_in_person_email'']"
    by simp
  have a4: "map_of ?p ''trigger_email'' = (if choice = ''1'' then Some (JStr ''1'') else None)"
    by simp
  have a5: "map_of ?p ''cons_in_person_email'' = (if choice = ''2'' then Some (JStr ''1'') else None)"
    using assms(4) by auto
  show ?thesis
    by (rule exI [of _ ?p]) (intro conjI a1 a2 a3 a4 a5)
qed

theorem dispatch_sets_one_trigger_witness:
  "\<exists>p. calls (snd (trigger_email demo_config scripted (Some ''42'')
                 (start [reply_json 200 (JArr [JObj [(''interested_consent'', JStr ''2'')]])]))) =
          [post_request demo_config (fetch_payload demo_config (Some ''42'')),
           post_request demo_config (update_payload demo_config p)]
      \<and> map_of (update_payload demo_config p) ''data'' = Some (JsonDumps (JArr [JObj p]))
      \<and> map fst p = [''record_id'', ''cons_in_person_email'']
      \<and> map_of p ''trigger_email'' = None
      \<and> map_of p ''cons_in_person_email'' = Some (JStr ''1'')"
  using dispatch_sets_one_trigger [of scripted demo_config "Some ''42''"
      "start [reply_json 200 (JArr [JObj [(''interested_consent'', JStr ''2'')]])]"
      "\<lparr>status_code = 200, body_text = [],
         json_body = Some (JArr [JObj [(''interested_consent'', JStr ''2'')]])\<rparr>"
      "[]" "[(''interested_consent'', JStr ''2'')]" "[]" "''2''"]
  by (simp add: scripted_def start_def reply_json_def dict_get_def py_str_def)

text \<open>
  C2, as amended. \<^verbatim>\<open>trigger_email\<close> branches on the text \<^verbatim>\<open>str\<close> gives for the consent
  value read back from Project B (the empty string when the key is absent). When that text
  is neither \<^verbatim>\<open>"1"\<close> nor \<^verbatim>\<open>"2"\<close>, the handler returns
  \<^verbatim>\<open>"No alert needed for this choice."\<close> with status 200, and the only remote call it
  made is the read: no import request is sent.
\<close>

theorem dispatch_no_action:
  assumes "net (post_request cfg (fetch_payload cfg record_id)) (world s) = (Inr res, w1)"
    and "json_body res = Some (JArr (JObj d # rest))"
    and "choice = py_str (dict_get d ''interested_consent'' (JStr []))"
    and "choice \<noteq> ''1''" and "choice \<noteq> ''2''"
  shows "trigger_email cfg net record_id s =
           (Inr (NoAlertNeeded, 200),
            s\<lparr>world := w1, calls := calls s @ [post_request cfg (fetch_payload cfg record_id)],
               printed := printed s @ [NoConsentAlert record_id choice]\<rparr>)
         \<and> filter is_import [post_request cfg (fetch_payload cfg record_id)] = []"
proof -
  have "read_choice res = Inr choice"
    using assms(2,3) by (simp add: read_choice_record)
  moreover have "trigger_payload record_id choice = None"
    using assms(4,5) by (simp add: trigger_payload_def)
  ultimately show ?thesis
    using assms(1)
    by (simp add: trigger_email_def requests_post_answer print_def fetch_is_not_import)
qed

theorem dispatch_no_action_witness:
  "trigger_email demo_config scripted (Some ''7'')
     (start [reply_json 200 (JArr [JObj [(''record_id'', JStr ''7'')]])]) =
     (Inr (NoAlertNeeded, 200),
      \<lparr>world = [], calls = [post_request demo_config (fetch_payload demo_config (Some ''7''))],
         printed = [NoConsentAlert (Some ''7'') []]\<rparr>)
   \<and> filter is_import [post_request demo_config (fetch_payload demo_config (Some ''7''))] = []"
  using dispatch_no_action [of scripted demo_config "Some ''7''"
      "start [reply_json 200 (JArr [JObj [(''record_id'', JStr ''7'')]])]"
      "\<lparr>status_code = 200, body_text = [], json_body = Some (JArr [JObj [(''record_id'', JStr ''7'')]])\<rparr>"
      "[]" "[(''record_id'', JStr ''7'')]" "[]" "[]"]
  by (simp add: scripted_def start_def reply_json_def dict_get_def py_str_def)

text \<open>
  C2 as stated fails: a stored consent value that is the number \<^verbatim>\<open>1\<close> is outside
  \<^verbatim>\<open>{"1","2"}\<close>, yet \<^verbatim>\<open>str\<close> prints it as \<^verbatim>\<open>1\<close>, so the handler posts the
  \<^verbatim>\<open>trigger_email\<close> update and returns the \<^verbatim>\<open>Action Complete!\<close> page.
\<close>

theorem dispatch_number_choice_counterexample:
  "map_of [(''record_id'', JStr ''42''), (''interested_consent'', JInt 1)] ''interested_consent'' =
     Some (JInt 1)
   \<and> JInt 1 \<noteq> JStr ''1'' \<and> JInt 1 \<noteq> JStr ''2''
   \<and> trigger_email demo_config scripted (Some ''42'')
        (start [reply_json 200 (JArr [JObj [(''record_id'', JStr ''42''),
                                            (''interested_consent'', JInt 1)]]),
                reply_json 200 (JObj [(''count'', JInt 1)])]) =
       (Inr (ActionComplete, 200),
        \<lparr>world = [],
           calls = [post_request demo_config (fetch_payload demo_config (Some ''42'')),
                    post_request demo_config (update_payload demo_config
                      [(''record_id'', JStr ''42''), (''trigger_email'', JStr ''1'')])],
           printed = [UpdateSuccess (Some ''42'') ''1'',
                      EmailAlertTriggered (Some ''42'') [] 200 ''1'']\<rparr>)
   \<and> is_import (post_request demo_config (update_payload demo_config
          [(''record_id'', JStr ''42''), (''trigger_email'', JStr ''1'')])) = True"
  by (simp add: trigger_email_def requests_post_def scripted_def start_def reply_json_def
      read_choice_def response_json_def dict_get_def py_str_def dec_int_def trigger_payload_def
      print_def json_str_def is_import_def update_payload_def)

text \<open>
  C3. When the export from Project A answers with a list whose first element is a record,
  \<^verbatim>\<open>transfer_data\<close> posts to Project B a record with exactly the eight keys of
  \<^verbatim>\<open>clean_data_for_b\<close>, in which both status markers are \<^verbatim>\<open>'2'\<close>, the record id is
  the requested one, and the consent choice is a string: the empty string when the source
  has no such key, \<^verbatim>\<open>str\<close> of the source value otherwise.
\<close>

theorem transfer_upserts_allow_list:
  assumes "rid \<noteq> []"
    and "net (post_request cfg (export_payload cfg rid)) (world s) = (Inr response_a, w1)"
    and "json_body response_a = Some (JArr (JObj d # rest))"
  shows "\<exists>clean. calls (snd (transfer_data cfg net (Some rid) s)) =
                   calls s @ [post_request cfg (export_payload cfg rid),
                              post_request cfg (import_payload cfg clean)]
           \<and> map_of (import_payload cfg clean) ''data'' = Some (JsonDumps (JArr [JObj clean]))
           \<and> map fst clean =
               [''record_id'', ''pt_email'', ''pt_phone'', ''res_email'', ''elig_date'',
                ''interested_consent'', ''trace_ai_eligibility_screening_draft_complete'',
                ''record_set_up_complete'']
           \<and> map_of clean ''record_id'' = Some (JStr rid)
           \<and> map_of clean ''trace_ai_eligibility_screening_draft_complete'' = Some (JStr ''2'')
           \<and> map_of clean ''record_set_up_complete'' = Some (JStr ''2'')
           \<and> map_of clean ''interested_consent'' =
               Some (JStr (case map_of d ''interested_consent'' of None \<Rightarrow> [] | Some v \<Rightarrow> py_str v))"
proof -
  let ?c = "py_str (dict_get d ''interested_consent'' (JStr []))"
  let ?clean = "[(''record_id'', JStr rid),
          (''pt_email'', dict_get d ''pt_email'' JNull),
          (''pt_phone'', dict_get d ''pt_phone'' JNull),
          (''res_email'', dict_get d ''res_email'' JNull),
          (''elig_date'', dict_get d ''elig_date'' JNull),
          (''interested_consent'', JStr ?c),
          (''trace_ai_eligibility_screening_draft_complete'', JStr ''2''),
          (''record_set_up_complete'', JStr ''2'')]"
  have pr: "project_records rid (JArr (JObj d # rest)) = Inr (Some (?c, ?clean))"
    by (rule project_records_record) (rule clean_data_for_b_record)
  have a1: "calls (snd (transfer_data cfg net (Some rid) s)) =
                   calls s @ [post_request cfg (export_payload cfg rid),
                              post_request cfg (import_payload cfg ?clean)]"
    using assms pr by (rule calls_transfer_data_write)
  have a2: "map_of (import_payload cfg ?clean) ''data'' = Some (JsonDumps (JArr [JObj ?clean]))"
    by (simp add: import_payload_def)
  have a3: "map fst ?clean =
               [''record_id'', ''pt_email'', ''pt_phone'', ''res_email'', ''elig_date'',
                ''interested_consent'', ''trace_ai_eligibility_screening_draft_complete'',
                ''record_set_up_complete'']"
    by simp
  have a4: "map_of ?clean ''record_id'' = Some (JStr rid)"
    by simp
  have a5: "map_of ?clean ''trace_ai_eligibility_screening_draft_complete'' = Some (JStr ''2'')"
    by simp
  have a6: "map_of ?clean ''record_set_up_complete'' = Some (JStr ''2'')"
    by simp
  have "?c = (case map_of d ''interested_consent'' of None \<Rightarrow> [] | Some v \<Rightarrow> py_str v)"
    by (simp add: dict_get_def py_str_def split: option.splits)
  then have a7: "map_of ?clean ''interested_consent'' =
               Some (JStr (case map_of d ''interested_consent'' of None \<Rightarrow> [] | Some v \<Rightarrow> py_str v))"
    by simp
  show ?thesis
    by (rule exI [of _ ?clean]) (intro conjI a1 a2 a3 a4 a5 a6 a7)
qed

theorem transfer_upserts_allow_list_witness:
  "\<exists>clean. calls (snd (transfer_data demo_config scripted (Some ''42'')
        (start [reply_json 200 (JArr [JObj [(''record_id'', JStr ''42''),
                  (''pt_email'', JStr ''pat@example.org''), (''screen_notes'', JStr ''private'')]])]))) =
          [post_request demo_config (export_payload demo_config ''42''),
           post_request demo_config (import_payload demo_config clean)]
     \<and> map_of (import_payload demo_config clean) ''data'' = Some (JsonDumps (JArr [JObj clean]))
     \<and> map fst clean =
         [''record_id'', ''pt_email'', ''pt_phone'', ''res_email'', ''elig_date'',
          ''interested_consent'', ''trace_ai_eligibility_screening_draft_complete'',
          ''record_set_up_complete'']
     \<and> map_of clean ''record_id'' = Some (JStr ''42'')
     \<and> map_of clean ''trace_ai_eligibility_screening_draft_complete'' = Some (JStr ''2'')
     \<and> map_of clean ''record_set_up_complete'' = Some (JStr ''2'')
     \<and> map_of clean ''interested_consent'' = Some (JStr [])"
  using transfer_upserts_allow_list [of "''42''" scripted demo_config
      "start [reply_json 200 (JArr [JObj [(''record_id'', JStr ''42''),
                  (''pt_email'', JStr ''pat@example.org''), (''screen_notes'', JStr ''private'')]])]"
      "\<lparr>status_code = 200, body_text = [],
         json_body = Some (JArr [JObj [(''record_id'', JStr ''42''),
                  (''pt_email'', JStr ''pat@example.org''), (''screen_notes'', JStr ''private'')]])\<rparr>"
      "[]"
      "[(''record_id'', JStr ''42''), (''pt_email'', JStr ''pat@example.org''),
        (''screen_notes'', JStr ''private'')]" "[]"]
  by (simp add: scripted_def start_def reply_json_def)

text \<open>
  C4. When the export from Project A gives a record and the import into Project B is
  answered at all, \<^verbatim>\<open>transfer_data\<close> returns the page for the consent choice with
  status 200 whatever the status code of that answer is; the code only appears in the
  printed \<^verbatim>\<open>Sync Event\<close> line.
\<close>

theorem transfer_ignores_upsert_status:
  assumes "rid \<noteq> []"
    and "net (post_request cfg (export_payload cfg rid)) (world s) = (Inr response_a, w1)"
    and "json_body response_a = Some (JArr (JObj d # rest))"
    and "choice = py_str (dict_get d ''interested_consent'' (JStr []))"
    and "clean_data_for_b rid choice (JObj d) = Inr clean"
    and "net (post_request cfg (import_payload cfg clean)) w1 = (Inr response_b, w2)"
  shows "transfer_data cfg net (Some rid) s =
           (Inr (render_template_string rid choice, 200),
            s\<lparr>world := w2,
               calls := calls s @ [post_request cfg (export_payload cfg rid),
                                   post_request cfg (import_payload cfg clean)],
               printed := printed s @ [SyncEvent rid (status_code response_b)]\<rparr>)"
proof -
  have "project_records rid (JArr (JObj d # rest)) = Inr (Some (choice, clean))"
    using assms(4,5) by (simp add: project_records_record)
  then show ?thesis
    using assms(1,2,3,6)
    by (simp add: transfer_data_def transfer_try_def requests_post_def response_json_def print_def)
qed

theorem transfer_ignores_upsert_status_witness:
  "transfer_data demo_config scripted (Some ''42'')
     (start [reply_json 200 (JArr [JObj [(''interested_consent'', JStr ''1'')]]),
             reply_text 500 ''Internal Server Error'']) =
     (Inr (EligibilityFormSubmitted ''42'' (SendMyQuestionnaire ''42''), 200),
      \<lparr>world = [],
         calls = [post_request demo_config (export_payload demo_config ''42''),
                  post_request demo_config (import_payload demo_config
                    [(''record_id'', JStr ''42''), (''pt_email'', JNull), (''pt_phone'', JNull),
                     (''res_email'', JNull), (''elig_date'', JNull),
                     (''interested_consent'', JStr ''1''),
                     (''trace_ai_eligibility_screening_draft_complete'', JStr ''2''),
                     (''record_set_up_complete'', JStr ''2'')])],
         printed = [SyncEvent ''42'' 500]\<rparr>)"
  using transfer_ignores_upsert_status [of "''42''" scripted demo_config
      "start [reply_json 200 (JArr [JObj [(''interested_consent'', JStr ''1'')]]),
              reply_text 500 ''Internal Server Error'']"
      "\<lparr>status_code = 200, body_text = [],
         json_body = Some (JArr [JObj [(''interested_consent'', JStr ''1'')]])\<rparr>"
      "[reply_text 500 ''Internal Server Error'']"
      "[(''interested_consent'', JStr ''1'')]" "[]" "''1''"
      "[(''record_id'', JStr ''42''), (''pt_email'', JNull), (''pt_phone'', JNull),
        (''res_email'', JNull), (''elig_date'', JNull),
        (''interested_consent'', JStr ''1''),
        (''trace_ai_eligibility_screening_draft_complete'', JStr ''2''),
        (''record_set_up_complete'', JStr ''2'')]"
      "\<lparr>status_code = 500, body_text = ''Internal Server Error'', json_body = None\<rparr>" "[]"]
  by (simp add: scripted_def start_def reply_json_def reply_text_def dict_get_def py_str_def
      clean_data_for_b_def render_template_string_def)

text \<open>
  C5, as amended. When \<^verbatim>\<open>trigger_email\<close> reaches the update and the endpoint answers it
  with a status other than 200, the handler prints the \<^verbatim>\<open>REDCAP ERROR\<close> line with the
  upstream body and the \<^verbatim>\<open>Email Alert Triggered\<close> line with body and status, and returns
  the \<^verbatim>\<open>Action Complete!\<close> page with status 200, as it does after a successful update.
\<close>

theorem dispatch_failure_only_logged:
  assumes "net (post_request cfg (fetch_payload cfg record_id)) (world s) = (Inr res, w1)"
    and "json_body res = Some (JArr (JObj d # rest))"
    and "choice = py_str (dict_get d ''interested_consent'' (JStr []))"
    and "trigger_payload record_id choice = Some p"
    and "net (post_request cfg (update_payload cfg p)) w1 = (Inr response, w2)"
    and "status_code response \<noteq> 200"
  shows "trigger_email cfg net record_id s =
           (Inr (ActionComplete, 200),
            s\<lparr>world := w2,
               calls := calls s @ [post_request cfg (fetch_payload cfg record_id),
                                   post_request cfg (update_payload cfg p)],
               printed := printed s @
                 [RedcapError record_id (body_text response),
                  EmailAlertTriggered record_id (body_text response) (status_code response) choice]\<rparr>)"
proof -
  have "read_choice res = Inr choice"
    using assms(2,3) by (simp add: read_choice_record)
  then show ?thesis
    using assms(1,4,5,6) by (simp add: trigger_email_def requests_post_def print_def)
qed

theorem dispatch_failure_only_logged_witness:
  "trigger_email demo_config scripted (Some ''42'')
          (start [reply_json 200 (JArr [JObj [(''interested_consent'', JStr ''1'')]]),
                  reply_text 400 ''ERROR: invalid field'']) =
     (Inr (ActionComplete, 200),
      \<lparr>world = [],
         calls = [post_request demo_config (fetch_payload demo_config (Some ''42'')),
                  post_request demo_config (update_payload demo_config
                    [(''record_id'', JStr ''42''), (''trigger_email'', JStr ''1'')])],
         printed = [RedcapError (Some ''42'') ''ERROR: invalid field'',
                    EmailAlertTriggered (Some ''42'') ''ERROR: invalid field'' 400 ''1'']\<rparr>)"
  using dispatch_failure_only_logged [of scripted demo_config "Some ''42''"
      "start [reply_json 200 (JArr [JObj [(''interested_consent'', JStr ''1'')]]),
              reply_text 400 ''ERROR: invalid field'']"
      "\<lparr>status_code = 200, body_text = [],
         json_body = Some (JArr [JObj [(''interested_consent'', JStr ''1'')]])\<rparr>"
      "[reply_text 400 ''ERROR: invalid field'']"
      "[(''interested_consent'', JStr ''1'')]" "[]" "''1''"
      "[(''record_id'', JStr ''42''), (''trigger_email'', JStr ''1'')]"
      "\<lparr>status_code = 400, body_text = ''ERROR: invalid field'', json_body = None\<rparr>" "[]"]
  by (simp add: scripted_def start_def reply_json_def reply_text_def dict_get_def py_str_def
      trigger_payload_def json_str_def)

text \<open>
  C5 as stated fails: with consent choice \<^verbatim>\<open>"1"\<close>, an update answered with status 400
  and one answered with status 200 give the same returned value.
\<close>

theorem dispatch_failure_not_returned_counterexample:
  "fst (trigger_email demo_config scripted (Some ''42'')
          (start [reply_json 200 (JArr [JObj [(''interested_consent'', JStr ''1'')]]),
                  reply_text 400 ''ERROR: invalid field'']))
     = Inr (ActionComplete, 200)
   \<and> fst (trigger_email demo_config scripted (Some ''42'')
          (start [reply_json 200 (JArr [JObj [(''interested_consent'', JStr ''1'')]]),
                  reply_json 200 (JObj [(''count'', JInt 1)])]))
     = Inr (ActionComplete, 200)"
  by (simp add: trigger_email_def requests_post_def scripted_def start_def reply_json_def
      reply_text_def read_choice_def response_json_def dict_get_def py_str_def
      trigger_payload_def print_def)

text \<open>
  C6. \<^verbatim>\<open>trigger_email\<close> is run where the claim expects the typed failure: once with an
  answer from Project B that is not JSON, once with \<^verbatim>\<open>requests.post\<close> raising. In both
  runs the exception leaves the handler; the \<^verbatim>\<open>try\<close> catches \<^verbatim>\<open>IndexError\<close> and
  \<^verbatim>\<open>KeyError\<close> only and the posts stand outside it. (An empty list is caught:
  \<open>trigger_email_no_records\<close>.)
\<close>

theorem dispatch_exceptions_escape:
  "trigger_email demo_config scripted (Some ''42'') (start [reply_text 200 ''<html>Login</html>'']) =
     (Inl JSONDecodeError,
      \<lparr>world = [], calls = [post_request demo_config (fetch_payload demo_config (Some ''42''))],
         printed = []\<rparr>)
   \<and> trigger_email demo_config scripted (Some ''42'') (start [Inl RequestException]) =
     (Inl RequestException,
      \<lparr>world = [], calls = [post_request demo_config (fetch_payload demo_config (Some ''42''))],
         printed = []\<rparr>)"
  by (simp add: trigger_email_def requests_post_def scripted_def start_def reply_text_def
      read_choice_def response_json_def)

text \<open>
  C7. \<^verbatim>\<open>transfer_data\<close> rejects a missing or empty id with status 400 before any call
  (\<open>transfer_data_rejects_missing_id\<close>), but \<^verbatim>\<open>trigger_email\<close> has no such check: with
  no \<^verbatim>\<open>rec_id\<close> it reads from Project B, posts an update with a \<^verbatim>\<open>null\<close> record id and
  returns status 200; with an empty \<^verbatim>\<open>rec_id\<close> it still makes the read.
\<close>

theorem dispatch_accepts_missing_id:
  "trigger_email demo_config scripted None
     (start [reply_json 200 (JArr [JObj [(''record_id'', JStr ''1''), (''interested_consent'', JStr ''1'')]]),
             reply_json 200 (JObj [(''count'', JInt 1)])]) =
     (Inr (ActionComplete, 200),
      \<lparr>world = [],
         calls = [post_request demo_config (fetch_payload demo_config None),
                  post_request demo_config (update_payload demo_config
                    [(''record_id'', JNull), (''trigger_email'', JStr ''1'')])],
         printed = [UpdateSuccess None ''1'', EmailAlertTriggered None [] 200 ''1'']\<rparr>)
   \<and> calls (snd (trigger_email demo_config scripted (Some [])
        (start [reply_json 200 (JArr [])]))) =
       [post_request demo_config (fetch_payload demo_config (Some []))]
   \<and> fst (trigger_email demo_config scripted (Some []) (start [reply_json 200 (JArr [])])) =
       Inr (CouldNotRetrieveRecord, 500)"
  by (simp add: trigger_email_def requests_post_def scripted_def start_def reply_json_def
      read_choice_def response_json_def dict_get_def py_str_def trigger_payload_def print_def
      json_str_def)

text \<open>
  C8. For a non-empty record id whose export from Project A answers with an empty list,
  \<^verbatim>\<open>transfer_data\<close> returns the not-found message with status 404, and the export is
  the only remote call: nothing is sent to Project B.
\<close>

theorem transfer_not_found:
  assumes "rid \<noteq> []"
    and "net (post_request cfg (export_payload cfg rid)) (world s) = (Inr response_a, w1)"
    and "json_body response_a = Some (JArr [])"
  shows "transfer_data cfg net (Some rid) s =
           (Inr (RecordNotFound rid, 404),
            s\<lparr>world := w1, calls := calls s @ [post_request cfg (export_payload cfg rid)]\<rparr>)
         \<and> is_import (post_request cfg (export_payload cfg rid)) = False"
proof -
  have "project_records rid (JArr []) = Inr None"
    by (simp add: project_records_def)
  with assms show ?thesis
    by (simp add: transfer_data_def transfer_try_def requests_post_answer response_json_def
        export_is_not_import)
qed

theorem transfer_not_found_witness:
  "transfer_data demo_config scripted (Some ''99'') (start [reply_json 200 (JArr [])]) =
     (Inr (RecordNotFound ''99'', 404),
      \<lparr>world = [], calls = [post_request demo_config (export_payload demo_config ''99'')],
         printed = []\<rparr>)
   \<and> is_import (post_request demo_config (export_payload demo_config ''99'')) = False"
  using transfer_not_found [of "''99''" scripted demo_config "start [reply_json 200 (JArr [])]"
      "\<lparr>status_code = 200, body_text = [], json_body = Some (JArr [])\<rparr>" "[]"]
  by (simp add: scripted_def start_def reply_json_def)

text \<open>
  C9, as amended. The projection copies \<^verbatim>\<open>pt_email\<close>, \<^verbatim>\<open>pt_phone\<close>, \<^verbatim>\<open>res_email\<close>
  and \<^verbatim>\<open>elig_date\<close> verbatim (an absent field becomes \<^verbatim>\<open>null\<close>), takes the record id
  from the request, and copies the consent choice verbatim when the source value is a
  string; an absent consent value becomes the empty string and any other value the text
  \<^verbatim>\<open>str\<close> prints for it.
\<close>

theorem projection_copies_strings:
  assumes "project_records rid (JArr (JObj d # rest)) = Inr (Some (c, clean))"
    and "f \<in> set [''pt_email'', ''pt_phone'', ''res_email'', ''elig_date'']"
  shows "map_of clean f = Some (dict_get d f JNull)
       \<and> map_of clean ''record_id'' = Some (JStr rid)
       \<and> map_of clean ''interested_consent'' =
           Some (JStr (case map_of d ''interested_consent'' of
                         None \<Rightarrow> []
                       | Some (JStr v) \<Rightarrow> v
                       | Some other \<Rightarrow> py_repr other))"
proof -
  let ?c = "py_str (dict_get d ''interested_consent'' (JStr []))"
  have "clean_data_for_b rid ?c (JObj d) = Inr clean"
    using assms(1) by (simp add: project_records_def split: sum.splits)
  then have clean: "clean =
        [(''record_id'', JStr rid),
          (''pt_email'', dict_get d ''pt_email'' JNull),
          (''pt_phone'', dict_get d ''pt_phone'' JNull),
          (''res_email'', dict_get d ''res_email'' JNull),
          (''elig_date'', dict_get d ''elig_date'' JNull),
          (''interested_consent'', JStr ?c),
          (''trace_ai_eligibility_screening_draft_complete'', JStr ''2''),
          (''record_set_up_complete'', JStr ''2'')]"
    by (simp add: clean_data_for_b_record)
  have a1: "map_of clean f = Some (dict_get d f JNull)"
    using assms(2) by (auto simp: clean)
  have a2: "map_of clean ''record_id'' = Some (JStr rid)"
    by (simp add: clean)
  have "?c = (case map_of d ''interested_consent'' of
                         None \<Rightarrow> []
                       | Some (JStr v) \<Rightarrow> v
                       | Some other \<Rightarrow> py_repr other)"
    by (simp add: dict_get_def py_str_def split: option.splits json.splits)
  then have a3: "map_of clean ''interested_consent'' =
           Some (JStr (case map_of d ''interested_consent'' of
                         None \<Rightarrow> []
                       | Some (JStr v) \<Rightarrow> v
                       | Some other \<Rightarrow> py_repr other))"
    by (simp add: clean)
  from a1 a2 a3 show ?thesis by (intro conjI)
qed

theorem projection_copies_strings_witness:
  "map_of [(''record_id'', JStr ''42''), (''pt_email'', JStr ''pat@example.org''),
           (''pt_phone'', JNull), (''res_email'', JNull), (''elig_date'', JStr ''2024-05-01''),
           (''interested_consent'', JStr ''2''),
           (''trace_ai_eligibility_screening_draft_complete'', JStr ''2''),
           (''record_set_up_complete'', JStr ''2'')] ''elig_date'' = Some (JStr ''2024-05-01'')
   \<and> map_of [(''record_id'', JStr ''42''), (''pt_email'', JStr ''pat@example.org''),
           (''pt_phone'', JNull), (''res_email'', JNull), (''elig_date'', JStr ''2024-05-01''),
           (''interested_consent'', JStr ''2''),
           (''trace_ai_eligibility_screening_draft_complete'', JStr ''2''),
           (''record_set_up_complete'', JStr ''2'')] ''interested_consent'' = Some (JStr ''2'')"
  using projection_copies_strings [of "''42''"
      "[(''record_id'', JStr ''42''), (''pt_email'', JStr ''pat@example.org''),
        (''elig_date'', JStr ''2024-05-01''), (''interested_consent'', JStr ''2'')]" "[]" "''2''"
      "[(''record_id'', JStr ''42''), (''pt_email'', JStr ''pat@example.org''),
           (''pt_phone'', JNull), (''res_email'', JNull), (''elig_date'', JStr ''2024-05-01''),
           (''interested_consent'', JStr ''2''),
           (''trace_ai_eligibility_screening_draft_complete'', JStr ''2''),
           (''record_set_up_complete'', JStr ''2'')]" "''elig_date''"]
  by (simp add: project_records_def clean_data_for_b_def dict_get_def py_str_def)

text \<open>
  C9 as stated fails: a source record whose consent field is \<^verbatim>\<open>null\<close> is projected to
  the string \<^verbatim>\<open>"None"\<close>.
\<close>

theorem projection_not_verbatim_counterexample:
  "project_records ''42'' (JArr [JObj null_consent_record]) =
     Inr (Some (''None'',
       [(''record_id'', JStr ''42''), (''pt_email'', JStr ''pat@example.org''),
        (''pt_phone'', JNull), (''res_email'', JNull), (''elig_date'', JNull),
        (''interested_consent'', JStr ''None''),
        (''trace_ai_eligibility_screening_draft_complete'', JStr ''2''),
        (''record_set_up_complete'', JStr ''2'')]))
   \<and> map_of null_consent_record ''interested_consent'' = Some JNull
   \<and> JStr ''None'' \<noteq> JNull"
  by (simp add: project_records_def null_consent_record_def clean_data_for_b_def dict_get_def
      py_str_def)

text \<open>
  C10. When the fetched record has the consent key with the value \<^verbatim>\<open>null\<close>, both
  handlers read the choice as the text \<^verbatim>\<open>None\<close>: \<^verbatim>\<open>transfer_data\<close> sends it to
  Project B and renders the warning block, and \<^verbatim>\<open>trigger_email\<close> returns the no-alert
  message after the read alone.
\<close>

theorem null_consent_is_None_text:
  assumes "map_of d ''interested_consent'' = Some JNull"
    and "rid \<noteq> []"
    and "netA (post_request cfg (export_payload cfg rid)) (world sA) = (Inr response_a, w1)"
    and "json_body response_a = Some (JArr (JObj d # rest))"
    and "clean_data_for_b rid ''None'' (JObj d) = Inr clean"
    and "netA (post_request cfg (import_payload cfg clean)) w1 = (Inr response_b, w2)"
    and "netB (post_request cfg (fetch_payload cfg record_id)) (world sB) = (Inr res, w3)"
    and "json_body res = Some (JArr (JObj d # rest'))"
  shows "fst (transfer_data cfg netA (Some rid) sA) =
           Inr (EligibilityFormSubmitted rid (NoPreferenceWarning ''None''), 200)
       \<and> map_of clean ''interested_consent'' = Some (JStr ''None'')
       \<and> trigger_email cfg netB record_id sB =
           (Inr (NoAlertNeeded, 200),
            sB\<lparr>world := w3, calls := calls sB @ [post_request cfg (fetch_payload cfg record_id)],
                printed := printed sB @ [NoConsentAlert record_id ''None'']\<rparr>)"
proof -
  have c: "py_str (dict_get d ''interested_consent'' (JStr [])) = ''None''"
    using assms(1) by (rule py_str_null_consent)
  have "project_records rid (JArr (JObj d # rest)) = Inr (Some (''None'', clean))"
    using assms(5) c by (simp add: project_records_def)
  then have t: "fst (transfer_data cfg netA (Some rid) sA) =
           Inr (EligibilityFormSubmitted rid (NoPreferenceWarning ''None''), 200)"
    using assms(2,3,4,6)
    by (simp add: transfer_data_def transfer_try_def requests_post_def response_json_def
        render_template_string_def)
  have m: "map_of clean ''interested_consent'' = Some (JStr ''None'')"
    using assms(5) by (auto simp: clean_data_for_b_record)
  have "read_choice res = Inr ''None''"
    using assms(8) c by (simp add: read_choice_record)
  moreover have "trigger_payload record_id ''None'' = None"
    by (simp add: trigger_payload_def)
  ultimately have e: "trigger_email cfg netB record_id sB =
           (Inr (NoAlertNeeded, 200),
            sB\<lparr>world := w3, calls := calls sB @ [post_request cfg (fetch_payload cfg record_id)],
                printed := printed sB @ [NoConsentAlert record_id ''None'']\<rparr>)"
    using assms(7) by (simp add: trigger_email_def requests_post_def print_def)
  from t m e show ?thesis by (intro conjI)
qed

theorem null_consent_is_None_text_witness:
  "fst (transfer_data demo_config scripted (Some ''42'')
          (start [reply_json 200 (JArr [JObj [(''interested_consent'', JNull)]]),
                  reply_json 200 (JObj [(''count'', JInt 1)])])) =
     Inr (EligibilityFormSubmitted ''42'' (NoPreferenceWarning ''None''), 200)
   \<and> map_of [(''record_id'', JStr ''42''), (''pt_email'', JNull), (''pt_phone'', JNull),
              (''res_email'', JNull), (''elig_date'', JNull),
              (''interested_consent'', JStr ''None''),
              (''trace_ai_eligibility_screening_draft_complete'', JStr ''2''),
              (''record_set_up_complete'', JStr ''2'')] ''interested_consent'' = Some (JStr ''None'')
   \<and> trigger_email demo_config scripted (Some ''42'')
        (start [reply_json 200 (JArr [JObj [(''interested_consent'', JNull)]])]) =
       (Inr (NoAlertNeeded, 200),
        \<lparr>world = [],
           calls = [post_request demo_config (fetch_payload demo_config (Some ''42''))],
           printed = [NoConsentAlert (Some ''42'') ''None'']\<rparr>)"
  using null_consent_is_None_text [of "[(''interested_consent'', JNull)]" "''42''" scripted demo_config
      "start [reply_json 200 (JArr [JObj [(''interested_consent'', JNull)]]),
              reply_json 200 (JObj [(''count'', JInt 1)])]"
      "\<lparr>status_code = 200, body_text = [],
         json_body = Some (JArr [JObj [(''interested_consent'', JNull)]])\<rparr>"
      "[reply_json 200 (JObj [(''count'', JInt 1)])]" "[]"
      "[(''record_id'', JStr ''42''), (''pt_email'', JNull), (''pt_phone'', JNull),
        (''res_email'', JNull), (''elig_date'', JNull),
        (''interested_consent'', JStr ''None''),
        (''trace_ai_eligibility_screening_draft_complete'', JStr ''2''),
        (''record_set_up_complete'', JStr ''2'')]"
      "\<lparr>status_code = 200, body_text = [], json_body = Some (JObj [(''count'', JInt 1)])\<rparr>"
      "[]" scripted "Some ''42''"
      "start [reply_json 200 (JArr [JObj [(''interested_consent'', JNull)]])]"
      "\<lparr>status_code = 200, body_text = [],
         json_body = Some (JArr [JObj [(''interested_consent'', JNull)]])\<rparr>"
      "[]" "[]"]
  by (simp add: scripted_def start_def reply_json_def dict_get_def clean_data_for_b_def)

end
